theory Spec2Isabelle
  imports Complex_Main
begin

section \<open>The WeedBot actuation core (main_pi_control.py)\<close>

text \<open>
  The floats held in \<open>STATE\<close> (speeds, durations, volumes, \<open>time.time()\<close> stamps) are
  modelled as \<^typ>\<open>real\<close>: arithmetic is exact and every stored value is finite. The
  values that \<open>float()\<close> makes of a request, nan and the two infinities included, are
  modelled below; the one call that would store an infinity is answered \<open>NonFiniteState\<close>.
  Every \<open>time.time()\<close> read inside one call is taken at the same instant \<open>now\<close>, which
  is a parameter of the call; the formatted wall-clock string of a log entry is the
  parameter \<open>current_time\<close>. Printing and the write of config.json by \<open>save_config\<close>
  do not touch \<open>STATE\<close> and are left out.
\<close>

subsection \<open>Values arriving from JSON and Python's float()\<close>

datatype py_error = ValueError | TypeError | OverflowError | AttributeError

text \<open>What \<open>float()\<close> returns: a finite float, \<open>inf\<close>, \<open>-inf\<close> or \<open>nan\<close>.\<close>

datatype pyfloat = Finite real | PosInf | NegInf | NaN

text \<open>
  A JSON value as \<open>float()\<close> sees it:
  \<^item> \<open>PyNone\<close>: \<open>None\<close> (JSON null, or an absent key read with \<open>data.get\<close>);
  \<^item> \<open>PyFloat f\<close>: a number that converts to the float \<open>f\<close> (a JSON boolean is the number
    1 or 0; \<open>1e999\<close> and the literal \<open>Infinity\<close> arrive as \<open>inf\<close>, the literal \<open>NaN\<close> as
    \<open>nan\<close>);
  \<^item> \<open>PyHuge\<close>: an integer literal beyond the range of a float, such as \<open>10**400\<close>, on which
    \<open>float()\<close> raises OverflowError;
  \<^item> \<open>PyStr (Some f)\<close>: a string that \<open>float()\<close> converts to \<open>f\<close> (\<open>"1.5"\<close>, \<open>"nan"\<close>, \<open>"inf"\<close>);
    \<open>PyStr None\<close>: any other string, on which \<open>float()\<close> raises ValueError;
  \<^item> \<open>PyOther\<close>: a list or an object, on which \<open>float()\<close> raises TypeError.
\<close>

datatype py_value = PyNone | PyFloat pyfloat | PyHuge | PyStr "pyfloat option" | PyOther

abbreviation PyNum :: "real \<Rightarrow> py_value" where
  "PyNum r \<equiv> PyFloat (Finite r)"

fun py_float :: "py_value \<Rightarrow> py_error + pyfloat" where
  "py_float (PyFloat f) = Inr f"
| "py_float (PyStr (Some f)) = Inr f"
| "py_float (PyStr None) = Inl ValueError"
| "py_float PyHuge = Inl OverflowError"
| "py_float PyNone = Inl TypeError"
| "py_float PyOther = Inl TypeError"

text \<open>
  Python's comparison of floats, and its \<open>min(a, b)\<close> and \<open>max(a, b)\<close>: \<open>min\<close> returns \<open>b\<close>
  when \<open>b < a\<close> and \<open>a\<close> otherwise, \<open>max\<close> returns \<open>b\<close> when \<open>b > a\<close> and \<open>a\<close> otherwise;
  every comparison with \<open>nan\<close> is false.
\<close>

fun py_lt :: "pyfloat \<Rightarrow> pyfloat \<Rightarrow> bool" where
  "py_lt NaN b = False"
| "py_lt a NaN = False"
| "py_lt PosInf b = False"
| "py_lt a NegInf = False"
| "py_lt NegInf b = True"
| "py_lt a PosInf = True"
| "py_lt (Finite a) (Finite b) = (a < b)"

definition py_min :: "pyfloat \<Rightarrow> pyfloat \<Rightarrow> pyfloat" where
  "py_min a b = (if py_lt b a then b else a)"

definition py_max :: "pyfloat \<Rightarrow> pyfloat \<Rightarrow> pyfloat" where
  "py_max a b = (if py_lt a b then b else a)"

text \<open>
  \<open>max(lo, min(hi, x))\<close> with float bounds: the result is always finite. \<open>min(hi, inf)\<close> and
  \<open>min(hi, nan)\<close> are \<open>hi\<close>; \<open>min(hi, -inf)\<close> is \<open>-inf\<close>, and \<open>max(lo, -inf)\<close> is \<open>lo\<close>.
\<close>

fun clamp :: "real \<Rightarrow> real \<Rightarrow> pyfloat \<Rightarrow> real" where
  "clamp lo hi (Finite r) = max lo (min hi r)"
| "clamp lo hi PosInf = max lo hi"
| "clamp lo hi NegInf = lo"
| "clamp lo hi NaN = max lo hi"

text \<open>\<open>max(lo, x)\<close> with a float bound: \<open>max(lo, inf)\<close> is \<open>inf\<close>, \<open>max(lo, -inf)\<close> and
  \<open>max(lo, nan)\<close> are \<open>lo\<close>.\<close>

fun at_least :: "real \<Rightarrow> pyfloat \<Rightarrow> pyfloat" where
  "at_least lo (Finite r) = Finite (max lo r)"
| "at_least lo PosInf = PosInf"
| "at_least lo NegInf = Finite lo"
| "at_least lo NaN = Finite lo"

type_synonym request = "string \<rightharpoonup> py_value"

text \<open>\<open>data.get(key)\<close> and \<open>data.get(key, default)\<close>.\<close>

definition get :: "request \<Rightarrow> string \<Rightarrow> py_value" where
  "get data k = (case data k of None \<Rightarrow> PyNone | Some v \<Rightarrow> v)"

definition get_default :: "request \<Rightarrow> string \<Rightarrow> real \<Rightarrow> py_value" where
  "get_default data k d = (case data k of None \<Rightarrow> PyNum d | Some v \<Rightarrow> v)"

text \<open>
  The answer of a handler: the three answers of the control surface, the 500 of the motor
  handlers, an exception that no handler catches (answered by the server as an error), and
  \<open>NonFiniteState\<close>: the call stores \<open>inf\<close> in \<open>STATE\<close>, which the state below cannot hold;
  the state returned with it is the state before the store.
\<close>

datatype response =
  Success | Invalid | TankEmpty | Failed500 | Unhandled py_error | NonFiniteState

subsection \<open>The shared state\<close>

record log_entry =
  e_time :: string
  e_duration :: real
  e_amount :: real
  e_type :: string

text \<open>
  The attributes of \<open>WeedBotState\<close> that the control logic reads or writes, and the three
  outputs of the actuator driver (\<open>motor_pwm.value\<close>, \<open>pump_dir\<close>, \<open>pump_pwm.value\<close>).
  \<open>motor_paused_prev_speed\<close> is \<open>None\<close> or a float. The attribute
  \<open>motor_pause_on_detection_s\<close> is assigned by \<open>load_config\<close> only; a process that got
  past \<open>load_config\<close> has it.
\<close>

record state =
  motor_speed :: real
  pump_detection_duration :: real
  pump_off_time :: real
  water_per_spray_ml :: real
  water_tank_capacity_ml :: real
  current_water_level_ml :: real
  water_log :: "log_entry list"
  detection_cooldown_s :: real
  last_detection_time :: real
  motor_paused_until :: real
  motor_paused_prev_speed :: "real option"
  motor_pause_on_detection_s :: real
  motor_pwm :: real
  pump_dir :: bool
  pump_pwm :: real

definition SPEED_PUMP_DUTY_CYCLE :: real where
  "SPEED_PUMP_DUTY_CYCLE = 0.50"

subsection \<open>Loading the configuration at process start\<close>






subsection \<open>Control functions\<close>

definition set_motor_speed :: "py_value \<Rightarrow> state \<Rightarrow> py_error + (bool \<times> state)" where
  "set_motor_speed new_speed s =
     (case py_float new_speed of
        Inr f \<Rightarrow>
          (let new_speed = clamp 0 1 f
           in Inr (True, s\<lparr>motor_speed := new_speed, motor_pwm := new_speed,
                           motor_paused_prev_speed := None, motor_paused_until := 0\<rparr>))
      | Inl ValueError \<Rightarrow> Inr (False, s)
      | Inl e \<Rightarrow> Inl e)"

definition log_water_usage :: "string \<Rightarrow> real \<Rightarrow> string \<Rightarrow> state \<Rightarrow> bool \<times> state" where
  "log_water_usage current_time duration type s =
     (let amount_sprayed = water_per_spray_ml s
      in if current_water_level_ml s \<ge> amount_sprayed
         then (True,
               s\<lparr>current_water_level_ml := current_water_level_ml s - amount_sprayed,
                 water_log :=
                   (let l = water_log s @
                          [\<lparr>e_time = current_time, e_duration = duration,
                            e_amount = amount_sprayed, e_type = type\<rparr>]
                    in drop (length l - 50) l)\<rparr>)
         else (False, s))"

subsection \<open>Pump and motor-pause control\<close>

definition pause_motor_for :: "real \<Rightarrow> real \<Rightarrow> state \<Rightarrow> state" where
  "pause_motor_for now duration_s s =
     (let s1 = (if motor_paused_prev_speed s = None
                then s\<lparr>motor_paused_prev_speed := Some (motor_speed s)\<rparr> else s);
          s2 = s1\<lparr>motor_speed := 0, motor_pwm := 0\<rparr>
      in s2\<lparr>motor_paused_until := max (motor_paused_until s2) (now + duration_s)\<rparr>)"

definition activate_pump_on_detect :: "string \<Rightarrow> real \<Rightarrow> state \<Rightarrow> state" where
  "activate_pump_on_detect current_time now s =
     (if now < last_detection_time s + detection_cooldown_s s then s
      else if now > pump_off_time s \<and> current_water_level_ml s > 0 then
        (case log_water_usage current_time (pump_detection_duration s) ''Auto'' s of
           (True, s1) \<Rightarrow>
             pause_motor_for now (motor_pause_on_detection_s s1)
               (s1\<lparr>pump_dir := True, pump_pwm := SPEED_PUMP_DUTY_CYCLE,
                   pump_off_time := now + pump_detection_duration s1,
                   last_detection_time := now\<rparr>)
         | (False, s1) \<Rightarrow> s1)
      else s)"

definition check_and_stop_pump :: "real \<Rightarrow> state \<Rightarrow> state" where
  "check_and_stop_pump now s =
     (if now > pump_off_time s \<and> pump_off_time s \<noteq> 0
      then s\<lparr>pump_pwm := 0, pump_dir := False, pump_off_time := 0\<rparr>
      else s)"

definition check_and_resume_motor :: "real \<Rightarrow> state \<Rightarrow> state" where
  "check_and_resume_motor now s =
     (case motor_paused_prev_speed s of
        None \<Rightarrow> s
      | Some prev \<Rightarrow>
          if now > motor_paused_until s then
            (let s1 = (if motor_speed s = 0
                       then s\<lparr>motor_speed := prev, motor_pwm := prev\<rparr> else s)
             in s1\<lparr>motor_paused_prev_speed := None, motor_paused_until := 0\<rparr>)
          else s)"

subsection \<open>Request handlers of the control surface\<close>

definition handle_speed_change :: "request \<Rightarrow> state \<Rightarrow> response \<times> state" where
  "handle_speed_change data s =
     (let new_speed = get data ''speed''
      in if new_speed = PyNone then (Invalid, s)
         else (case set_motor_speed new_speed s of
                 Inl e \<Rightarrow> (Unhandled e, s)
               | Inr (True, s') \<Rightarrow> (Success, s')
               | Inr (False, s') \<Rightarrow> (Invalid, s')))"

definition handle_motor_stop :: "state \<Rightarrow> response \<times> state" where
  "handle_motor_stop s =
     (case set_motor_speed (PyNum 0.0) s of
        Inl e \<Rightarrow> (Unhandled e, s)
      | Inr (True, s') \<Rightarrow> (Success, s')
      | Inr (False, s') \<Rightarrow> (Failed500, s'))"

definition handle_motor_start :: "state \<Rightarrow> response \<times> state" where
  "handle_motor_start s =
     (case set_motor_speed (PyNum 0.2) s of
        Inl e \<Rightarrow> (Unhandled e, s)
      | Inr (True, s') \<Rightarrow> (Success, s')
      | Inr (False, s') \<Rightarrow> (Failed500, s'))"

definition handle_pump_test :: "request \<Rightarrow> string \<Rightarrow> real \<Rightarrow> state \<Rightarrow> response \<times> state" where
  "handle_pump_test data current_time now s =
     (case py_float (get_default data ''duration'' 1.0) of
        Inl ValueError \<Rightarrow> (Invalid, s)
      | Inl e \<Rightarrow> (Unhandled e, s)
      | Inr f \<Rightarrow>
          (let duration = clamp 0.1 10.0 f
           in case log_water_usage current_time duration ''Test'' s of
                (True, s1) \<Rightarrow>
                  (Success, s1\<lparr>pump_dir := True, pump_pwm := SPEED_PUMP_DUTY_CYCLE,
                                pump_off_time := now + duration\<rparr>)
              | (False, s1) \<Rightarrow> (TankEmpty, s1)))"

definition handle_detection_duration_change :: "request \<Rightarrow> state \<Rightarrow> response \<times> state" where
  "handle_detection_duration_change data s =
     (case py_float (get_default data ''duration'' (pump_detection_duration s)) of
        Inl ValueError \<Rightarrow> (Invalid, s)
      | Inl e \<Rightarrow> (Unhandled e, s)
      | Inr f \<Rightarrow> (Success, s\<lparr>pump_detection_duration := clamp 0.1 5.0 f\<rparr>))"

definition handle_cooldown_change :: "request \<Rightarrow> state \<Rightarrow> response \<times> state" where
  "handle_cooldown_change data s =
     (case py_float (get_default data ''cooldown'' (detection_cooldown_s s)) of
        Inl ValueError \<Rightarrow> (Invalid, s)
      | Inl e \<Rightarrow> (Unhandled e, s)
      | Inr f \<Rightarrow> (Success, s\<lparr>detection_cooldown_s := clamp 0.5 30.0 f\<rparr>))"

text \<open>
  \<open>set_water_config\<close> writes the spray volume before it converts the capacity, so an
  exception raised by the capacity leaves the new spray volume in \<open>STATE\<close>. Both values are
  bounded from below only, so an infinite value would be stored as it is.
\<close>

definition set_water_config :: "request \<Rightarrow> state \<Rightarrow> response \<times> state" where
  "set_water_config data s =
     (let new_spray_ml = get data ''water_per_spray_ml'';
          new_capacity_ml = get data ''water_tank_capacity_ml'';
          r1 = (if new_spray_ml \<noteq> PyNone
                then (case py_float new_spray_ml of
                        Inl ValueError \<Rightarrow> Inl (Invalid, s)
                      | Inl e \<Rightarrow> Inl (Unhandled e, s)
                      | Inr f \<Rightarrow>
                          (case at_least 0.1 f of
                             Finite v \<Rightarrow> Inr (s\<lparr>water_per_spray_ml := v\<rparr>)
                           | _ \<Rightarrow> Inl (NonFiniteState, s)))
                else Inr s)
      in case r1 of
           Inl r \<Rightarrow> r
         | Inr s1 \<Rightarrow>
             if new_capacity_ml \<noteq> PyNone
             then (case py_float new_capacity_ml of
                     Inl ValueError \<Rightarrow> (Invalid, s1)
                   | Inl e \<Rightarrow> (Unhandled e, s1)
                   | Inr f \<Rightarrow>
                       (case at_least 100.0 f of
                          Finite new_capacity_ml \<Rightarrow>
                            (let s2 = (if new_capacity_ml < current_water_level_ml s1
                                       then s1\<lparr>current_water_level_ml := new_capacity_ml\<rparr>
                                       else s1)
                             in (Success, s2\<lparr>water_tank_capacity_ml := new_capacity_ml\<rparr>))
                        | _ \<Rightarrow> (NonFiniteState, s1)))
             else (Success, s1))"

definition reset_water_level :: "state \<Rightarrow> response \<times> state" where
  "reset_water_level s =
     (Success, s\<lparr>current_water_level_ml := water_tank_capacity_ml s, water_log := []\<rparr>)"

subsection \<open>Runs of the system\<close>

text \<open>
  One call arriving at the shared state: a request of the control surface, or one of the
  three calls of the control loop (\<open>activate_pump_on_detect\<close> on a frame with a
  detection, \<open>check_and_stop_pump\<close>, \<open>check_and_resume_motor\<close>). The lock serialises
  them, so a run is a list of calls applied in order.
\<close>

datatype call =
    SetSpeed request
  | StopMotor
  | StartMotor
  | TestPump request string real
  | SetDetectionDuration request
  | SetCooldown request
  | SetWaterConfig request
  | ResetWaterLevel
  | Detect string real
  | StopCheck real
  | ResumeCheck real

fun step :: "call \<Rightarrow> state \<Rightarrow> state" where
  "step (SetSpeed data) s = snd (handle_speed_change data s)"
| "step StopMotor s = snd (handle_motor_stop s)"
| "step StartMotor s = snd (handle_motor_start s)"
| "step (TestPump data current_time now) s = snd (handle_pump_test data current_time now s)"
| "step (SetDetectionDuration data) s = snd (handle_detection_duration_change data s)"
| "step (SetCooldown data) s = snd (handle_cooldown_change data s)"
| "step (SetWaterConfig data) s = snd (set_water_config data s)"
| "step ResetWaterLevel s = snd (reset_water_level s)"
| "step (Detect current_time now) s = activate_pump_on_detect current_time now s"
| "step (StopCheck now) s = check_and_stop_pump now s"
| "step (ResumeCheck now) s = check_and_resume_motor now s"

fun run :: "call list \<Rightarrow> state \<Rightarrow> state" where
  "run [] s = s"
| "run (c # cs) s = run cs (step c s)"

text \<open>A sequence of sprays: each element is the time string, duration and type of one
  call of \<open>log_water_usage\<close>.\<close>

fun log_events :: "(string \<times> real \<times> string) list \<Rightarrow> state \<Rightarrow> state" where
  "log_events [] s = s"
| "log_events ((current_time, duration, type) # evs) s =
     log_events evs (snd (log_water_usage current_time duration type s))"

definition entry_of :: "real \<Rightarrow> string \<times> real \<times> string \<Rightarrow> log_entry" where
  "entry_of amount ev =
     (case ev of (current_time, duration, type) \<Rightarrow>
        \<lparr>e_time = current_time, e_duration = duration, e_amount = amount, e_type = type\<rparr>)"




text \<open>The state of a process started on a config.json that holds the empty object.\<close>

definition default_state :: state where
  "default_state =
     \<lparr> motor_speed = 0,
       pump_detection_duration = 0.2,
       pump_off_time = 0,
       water_per_spray_ml = 10,
       water_tank_capacity_ml = 200,
       current_water_level_ml = 200,
       water_log = [],
       detection_cooldown_s = 1,
       last_detection_time = 0,
       motor_paused_until = 0,
       motor_paused_prev_speed = None,
       motor_pause_on_detection_s = 1,
       motor_pwm = 0,
       pump_dir = False,
       pump_pwm = 0 \<rparr>"

text \<open>Fifty-five sprays, told apart by their durations 0, 1, ..., 54.\<close>

definition fifty_five_sprays :: "(string \<times> real \<times> string) list" where
  "fifty_five_sprays = map (\<lambda>i. (''t'', real i, ''Auto'')) [0..<55]"

section \<open>Properties\<close>

lemma clamp_is_max_min: "py_max (Finite lo) (py_min (Finite hi) f) = Finite (clamp lo hi f)"
  by (cases f) (auto simp add: py_max_def py_min_def)

lemma at_least_is_max: "py_max (Finite lo) f = at_least lo f"
  by (cases f) (auto simp add: py_max_def)



subsection \<open>Water accounting\<close>

text \<open>
  C1. With the level at or above the configured spray volume, \<open>log_water_usage\<close> returns
  True and lowers the level by exactly that volume; with the level below it, the call
  returns False and the whole state, level and log included, is as before: nothing is
  consumed in part.
\<close>

theorem log_water_usage_consume:
  "(water_per_spray_ml s \<le> current_water_level_ml s \<longrightarrow>
      fst (log_water_usage current_time duration type s) = True \<and>
      current_water_level_ml (snd (log_water_usage current_time duration type s)) =
        current_water_level_ml s - water_per_spray_ml s) \<and>
   (current_water_level_ml s < water_per_spray_ml s \<longrightarrow>
      log_water_usage current_time duration type s = (False, s))"
  by (simp add: log_water_usage_def Let_def)

theorem log_water_usage_consume_witness:
  "fst (log_water_usage ''t'' 1 ''Test'' default_state) = True \<and>
   current_water_level_ml (snd (log_water_usage ''t'' 1 ''Test'' default_state)) = 190 \<and>
   log_water_usage ''t'' 1 ''Test'' (default_state\<lparr>current_water_level_ml := 5\<rparr>) =
     (False, default_state\<lparr>current_water_level_ml := 5\<rparr>)"
  using log_water_usage_consume [of default_state "''t''" 1 "''Test''"]
    log_water_usage_consume [of "default_state\<lparr>current_water_level_ml := 5\<rparr>" "''t''" 1 "''Test''"]
  by (simp add: default_state_def)

subsection \<open>Cooldown\<close>

text \<open>
  C2. An auto-trigger at time \<open>now\<close> with \<open>now < last_detection_time + detection_cooldown_s\<close>
  returns with the state as it was, pump outputs included. With
  \<open>now \<ge> last_detection_time + detection_cooldown_s\<close>, the boundary included, the call gets past
  the cooldown check: when the pump timer has run out and the tank holds a spray, the pump is
  switched on, the timer and \<open>last_detection_time\<close> are set and the water is deducted.
\<close>

theorem cooldown_gate:
  "(now < last_detection_time s + detection_cooldown_s s \<longrightarrow>
      activate_pump_on_detect current_time now s = s) \<and>
   (last_detection_time s + detection_cooldown_s s \<le> now \<longrightarrow>
    pump_off_time s < now \<longrightarrow> 0 < current_water_level_ml s \<longrightarrow>
    water_per_spray_ml s \<le> current_water_level_ml s \<longrightarrow>
      pump_dir (activate_pump_on_detect current_time now s) \<and>
      pump_pwm (activate_pump_on_detect current_time now s) = SPEED_PUMP_DUTY_CYCLE \<and>
      pump_off_time (activate_pump_on_detect current_time now s) =
        now + pump_detection_duration s \<and>
      last_detection_time (activate_pump_on_detect current_time now s) = now \<and>
      current_water_level_ml (activate_pump_on_detect current_time now s) =
        current_water_level_ml s - water_per_spray_ml s)"
  by (simp add: activate_pump_on_detect_def log_water_usage_def pause_motor_for_def Let_def)

theorem cooldown_gate_witness:
  "activate_pump_on_detect ''t'' 4.5
     (default_state\<lparr>last_detection_time := 4, pump_off_time := 4.2\<rparr>) =
     default_state\<lparr>last_detection_time := 4, pump_off_time := 4.2\<rparr> \<and>
   last_detection_time (activate_pump_on_detect ''t'' 5
     (default_state\<lparr>last_detection_time := 4, pump_off_time := 4.2\<rparr>)) = 5 \<and>
   current_water_level_ml (activate_pump_on_detect ''t'' 5
     (default_state\<lparr>last_detection_time := 4, pump_off_time := 4.2\<rparr>)) = 190"
  using cooldown_gate [of "4.5" "default_state\<lparr>last_detection_time := 4, pump_off_time := 4.2\<rparr>" "''t''"]
    cooldown_gate [of 5 "default_state\<lparr>last_detection_time := 4, pump_off_time := 4.2\<rparr>" "''t''"]
  by (simp add: default_state_def)

subsection \<open>Motor pause and resume\<close>

text \<open>
  C3. \<open>pause_motor_for\<close> sets \<open>motor_paused_until\<close> to the maximum of its old value and
  \<open>now + duration_s\<close>, so the value never decreases. Pausing at \<open>now\<close> for 2.0 and again at
  \<open>now + 1.0\<close> for 2.0 gives the maximum of the old value and \<open>now + 3.0\<close>, which is
  \<open>now + 3.0\<close> whenever no later pause end was recorded before.
\<close>

theorem pause_motor_for_extends:
  "motor_paused_until (pause_motor_for now duration_s s) =
     max (motor_paused_until s) (now + duration_s) \<and>
   motor_paused_until s \<le> motor_paused_until (pause_motor_for now duration_s s) \<and>
   motor_paused_until (pause_motor_for (now + 1.0) 2.0 (pause_motor_for now 2.0 s)) =
     max (motor_paused_until s) (now + 3.0) \<and>
   (motor_paused_until s \<le> now + 3.0 \<longrightarrow>
      motor_paused_until (pause_motor_for (now + 1.0) 2.0 (pause_motor_for now 2.0 s)) =
        now + 3.0)"
  by (auto simp add: pause_motor_for_def Let_def)

theorem pause_motor_for_extends_witness:
  "motor_paused_until (pause_motor_for (7 + 1.0) 2.0 (pause_motor_for 7 2.0 default_state)) = 10"
  using pause_motor_for_extends [of 7 2 default_state]
  by (simp add: default_state_def)

text \<open>
  C4. With a pause recorded (\<open>motor_paused_prev_speed\<close> is a speed \<open>p\<close>),
  \<open>check_and_resume_motor\<close> changes nothing while \<open>now \<le> motor_paused_until\<close>. Once
  \<open>now > motor_paused_until\<close> it clears both pause fields in every case, writes \<open>p\<close> to the
  motor speed and the motor output when the current speed is exactly 0, and leaves the speed
  alone otherwise. \<open>set_motor_speed\<close> with a number clears both pause fields, so a later
  \<open>check_and_resume_motor\<close>, at any time, changes nothing.
\<close>

theorem check_and_resume_motor_cases:
  "motor_paused_prev_speed s = Some p \<Longrightarrow>
   (now \<le> motor_paused_until s \<longrightarrow> check_and_resume_motor now s = s) \<and>
   (motor_paused_until s < now \<longrightarrow>
      motor_paused_prev_speed (check_and_resume_motor now s) = None \<and>
      motor_paused_until (check_and_resume_motor now s) = 0 \<and>
      (motor_speed s = 0 \<longrightarrow>
         motor_speed (check_and_resume_motor now s) = p \<and>
         motor_pwm (check_and_resume_motor now s) = p) \<and>
      (motor_speed s \<noteq> 0 \<longrightarrow>
         motor_speed (check_and_resume_motor now s) = motor_speed s \<and>
         motor_pwm (check_and_resume_motor now s) = motor_pwm s)) \<and>
   (\<exists>s'. set_motor_speed (PyNum v) s = Inr (True, s') \<and>
      motor_paused_prev_speed s' = None \<and> motor_paused_until s' = 0 \<and>
      motor_speed s' = max 0 (min 1 v) \<and>
      check_and_resume_motor now' s' = s')"
  by (simp add: check_and_resume_motor_def set_motor_speed_def Let_def)


theorem check_and_resume_motor_cases_witness:
  "check_and_resume_motor 3 (pause_motor_for 2 1.5 (default_state\<lparr>motor_speed := 0.2\<rparr>)) =
     pause_motor_for 2 1.5 (default_state\<lparr>motor_speed := 0.2\<rparr>) \<and>
   motor_speed (check_and_resume_motor 4
     (pause_motor_for 2 1.5 (default_state\<lparr>motor_speed := 0.2\<rparr>))) = 0.2 \<and>
   motor_paused_prev_speed (check_and_resume_motor 4
     (pause_motor_for 2 1.5 (default_state\<lparr>motor_speed := 0.2\<rparr>))) = None \<and>
   motor_speed (check_and_resume_motor 4
     (pause_motor_for 2 1.5 (default_state\<lparr>motor_speed := 0.2\<rparr>)\<lparr>motor_speed := 0.7\<rparr>)) = 0.7"
  using check_and_resume_motor_cases
      [of "pause_motor_for 2 1.5 (default_state\<lparr>motor_speed := 0.2\<rparr>)" "0.2" 3 0 4]
    check_and_resume_motor_cases
      [of "pause_motor_for 2 1.5 (default_state\<lparr>motor_speed := 0.2\<rparr>)" "0.2" 4 0 4]
    check_and_resume_motor_cases
      [of "pause_motor_for 2 1.5 (default_state\<lparr>motor_speed := 0.2\<rparr>)\<lparr>motor_speed := 0.7\<rparr>" "0.2" 4 0 4]
  by (simp add: default_state_def pause_motor_for_def Let_def)

subsection \<open>The bounded water log\<close>

lemma keep_last_50_append:
  "drop (length (drop (length l - 50) l @ xs) - 50) (drop (length l - 50) l @ xs) =
   drop (length (l @ xs) - 50) (l @ xs)"
proof (cases "length l \<le> 50")
  case True
  then show ?thesis by simp
next
  case False
  then have "length xs + (length l - 50) = length l + length xs - 50"
    and "length l + length xs - 50 - length l = length xs - 50"
    and "50 + length xs - 50 = length xs"
    and "min (length l) 50 = 50"
    by arith+
  with False show ?thesis by simp
qed

lemma log_water_usage_wps:
  "water_per_spray_ml (snd (log_water_usage t d k s)) = water_per_spray_ml s"
  by (simp add: log_water_usage_def Let_def)

lemma log_water_usage_log_length:
  "length (water_log s) \<le> 50 \<Longrightarrow> length (water_log (snd (log_water_usage t d k s))) \<le> 50"
  by (auto simp add: log_water_usage_def Let_def)

lemma log_events_length:
  "length (water_log s) \<le> 50 \<Longrightarrow> length (water_log (log_events evs s)) \<le> 50"
proof (induction evs arbitrary: s)
  case Nil
  then show ?case by simp
next
  case (Cons ev evs)
  obtain t d k where ev: "ev = (t, d, k)" by (cases ev) auto
  show ?case
    unfolding ev log_events.simps
    by (rule Cons.IH) (rule log_water_usage_log_length [OF Cons.prems])
qed

lemma log_events_all_succeed:
  "length (water_log s) \<le> 50 \<Longrightarrow>
   0 \<le> water_per_spray_ml s \<Longrightarrow>
   real (length evs) * water_per_spray_ml s \<le> current_water_level_ml s \<Longrightarrow>
   water_log (log_events evs s) =
     drop (length (water_log s @ map (entry_of (water_per_spray_ml s)) evs) - 50)
       (water_log s @ map (entry_of (water_per_spray_ml s)) evs)"
proof (induction evs arbitrary: s)
  case Nil
  then show ?case by simp
next
  case (Cons ev evs)
  obtain t d k where ev: "ev = (t, d, k)" by (cases ev) auto
  let ?w = "water_per_spray_ml s"
  let ?e = "entry_of ?w ev"
  let ?s1 = "snd (log_water_usage t d k s)"
  have mul: "real (length (ev # evs)) * ?w = ?w + real (length evs) * ?w"
    by (simp add: algebra_simps)
  have nn: "0 \<le> real (length evs) * ?w"
    using Cons.prems(2) by simp
  have enough: "?w \<le> current_water_level_ml s"
    using Cons.prems(3) nn unfolding mul by linarith
  have w1: "water_per_spray_ml ?s1 = ?w" by (rule log_water_usage_wps)
  have lvl1: "current_water_level_ml ?s1 = current_water_level_ml s - ?w"
    using enough by (simp add: log_water_usage_def Let_def)
  have log1: "water_log ?s1 = drop (length (water_log s @ [?e]) - 50) (water_log s @ [?e])"
    using enough by (simp add: log_water_usage_def Let_def entry_of_def ev)
  have len1: "length (water_log ?s1) \<le> 50"
    by (rule log_water_usage_log_length [OF Cons.prems(1)])
  have rest: "real (length evs) * water_per_spray_ml ?s1 \<le> current_water_level_ml ?s1"
    using Cons.prems(3) unfolding mul w1 lvl1 by linarith
  have nn1: "0 \<le> water_per_spray_ml ?s1" using Cons.prems(2) by (simp add: w1)
  have "water_log (log_events (ev # evs) s) = water_log (log_events evs ?s1)"
    by (simp add: ev)
  also have "\<dots> = drop (length (water_log ?s1 @ map (entry_of ?w) evs) - 50)
       (water_log ?s1 @ map (entry_of ?w) evs)"
    using Cons.IH [OF len1 nn1 rest] by (simp only: w1)
  also have "\<dots> = drop (length ((water_log s @ [?e]) @ map (entry_of ?w) evs) - 50)
       ((water_log s @ [?e]) @ map (entry_of ?w) evs)"
    unfolding log1 by (rule keep_last_50_append)
  finally show ?case by simp
qed


lemma step_log_length:
  assumes len: "length (water_log s) \<le> 50"
  shows "length (water_log (step c s)) \<le> 50"
proof (cases c)
  case (SetSpeed data)
  with len show ?thesis
    by (auto simp add: handle_speed_change_def set_motor_speed_def Let_def
        split: sum.splits py_error.splits prod.splits bool.splits)
next
  case StopMotor
  with len show ?thesis by (simp add: handle_motor_stop_def set_motor_speed_def Let_def)
next
  case StartMotor
  with len show ?thesis by (simp add: handle_motor_start_def set_motor_speed_def Let_def)
next
  case (TestPump data t now)
  have "length (water_log s') \<le> 50" if "log_water_usage t d ''Test'' s = (b, s')" for d b s'
    using log_water_usage_log_length [OF len, of t d "''Test''"] that by simp
  with len show ?thesis
    by (auto simp add: TestPump handle_pump_test_def Let_def
        split: sum.splits py_error.splits prod.splits bool.splits)
next
  case (SetDetectionDuration data)
  with len show ?thesis
    by (auto simp add: handle_detection_duration_change_def split: sum.splits py_error.splits)
next
  case (SetCooldown data)
  with len show ?thesis
    by (auto simp add: handle_cooldown_change_def split: sum.splits py_error.splits)
next
  case (SetWaterConfig data)
  with len show ?thesis
    by (auto simp add: set_water_config_def Let_def
        split: sum.splits py_error.splits pyfloat.splits)
next
  case ResetWaterLevel
  with len show ?thesis by (simp add: reset_water_level_def)
next
  case (Detect t now)
  have "length (water_log s') \<le> 50" if "log_water_usage t d ''Auto'' s = (b, s')" for d b s'
    using log_water_usage_log_length [OF len, of t d "''Auto''"] that by simp
  with len show ?thesis
    by (auto simp add: Detect activate_pump_on_detect_def pause_motor_for_def Let_def
        split: prod.splits bool.splits)
next
  case (StopCheck now)
  with len show ?thesis by (simp add: check_and_stop_pump_def)
next
  case (ResumeCheck now)
  with len show ?thesis
    by (simp add: check_and_resume_motor_def Let_def split: option.splits)
qed

lemma run_log_length:
  "length (water_log s) \<le> 50 \<Longrightarrow> length (water_log (run cs s)) \<le> 50"
  by (induction cs arbitrary: s) (simp_all add: step_log_length)

lemma length_fifty_five_sprays: "length fifty_five_sprays = 55"
  by (simp add: fifty_five_sprays_def)

text \<open>
  C5. From a log of at most 50 entries, the log has at most 50 entries after any run of
  calls and after any sequence of sprays. A spray that succeeds puts its entry at the end and
  keeps the last 50 entries of the result. When every spray of a sequence succeeds, the log is
  the last 50 entries of the old log followed by the new entries; from an empty log, 55 sprays
  leave exactly the entries of the last 50 of them, in order.
\<close>

theorem water_log_bounded:
  "length (water_log s) \<le> 50 \<Longrightarrow>
   length (water_log (run cs s)) \<le> 50 \<and>
   length (water_log (log_events evs s)) \<le> 50 \<and>
   (water_per_spray_ml s \<le> current_water_level_ml s \<longrightarrow>
      water_log (snd (log_water_usage current_time duration type s)) =
        drop (length (water_log s) + 1 - 50)
          (water_log s @ [entry_of (water_per_spray_ml s) (current_time, duration, type)]) \<and>
      last (water_log (snd (log_water_usage current_time duration type s))) =
        entry_of (water_per_spray_ml s) (current_time, duration, type)) \<and>
   (0 \<le> water_per_spray_ml s \<longrightarrow>
    real (length evs) * water_per_spray_ml s \<le> current_water_level_ml s \<longrightarrow>
      water_log (log_events evs s) =
        drop (length (water_log s) + length evs - 50)
          (water_log s @ map (entry_of (water_per_spray_ml s)) evs)) \<and>
   (water_log s = [] \<longrightarrow> length evs = 55 \<longrightarrow> 0 \<le> water_per_spray_ml s \<longrightarrow>
    55 * water_per_spray_ml s \<le> current_water_level_ml s \<longrightarrow>
      water_log (log_events evs s) = map (entry_of (water_per_spray_ml s)) (drop 5 evs) \<and>
      length (water_log (log_events evs s)) = 50)"
proof (intro conjI impI)
  assume len: "length (water_log s) \<le> 50"
  show "length (water_log (run cs s)) \<le> 50" by (rule run_log_length [OF len])
  show "length (water_log (log_events evs s)) \<le> 50" by (rule log_events_length [OF len])
  {
    assume "water_per_spray_ml s \<le> current_water_level_ml s"
    then show log1: "water_log (snd (log_water_usage current_time duration type s)) =
        drop (length (water_log s) + 1 - 50)
          (water_log s @ [entry_of (water_per_spray_ml s) (current_time, duration, type)])"
      by (simp add: log_water_usage_def Let_def entry_of_def)
    have "length (water_log s) + 1 - 50 < length (water_log s @ [entry_of (water_per_spray_ml s) (current_time, duration, type)])"
      by simp
    then show "last (water_log (snd (log_water_usage current_time duration type s))) =
        entry_of (water_per_spray_ml s) (current_time, duration, type)"
      unfolding log1 by (simp only: last_drop last_snoc)
  }
  {
    assume "0 \<le> water_per_spray_ml s"
      and "real (length evs) * water_per_spray_ml s \<le> current_water_level_ml s"
    then show "water_log (log_events evs s) =
        drop (length (water_log s) + length evs - 50)
          (water_log s @ map (entry_of (water_per_spray_ml s)) evs)"
      using log_events_all_succeed [OF len] by simp
  }
  {
    assume e: "water_log s = []" and n: "length evs = 55"
      and w: "0 \<le> water_per_spray_ml s"
      and l: "55 * water_per_spray_ml s \<le> current_water_level_ml s"
    from n l have "real (length evs) * water_per_spray_ml s \<le> current_water_level_ml s"
      by simp
    from log_events_all_succeed [OF len w this]
    show r: "water_log (log_events evs s) = map (entry_of (water_per_spray_ml s)) (drop 5 evs)"
      by (simp add: e n drop_map)
    show "length (water_log (log_events evs s)) = 50"
      unfolding r by (simp add: n)
  }
qed

theorem water_log_bounded_witness:
  "length (water_log (log_events fifty_five_sprays
      (default_state\<lparr>water_per_spray_ml := 2\<rparr>))) = 50 \<and>
   water_log (log_events fifty_five_sprays (default_state\<lparr>water_per_spray_ml := 2\<rparr>)) =
     map (entry_of 2) (drop 5 fifty_five_sprays) \<and>
   last (water_log (snd (log_water_usage ''t'' 1 ''Test''
      (default_state\<lparr>water_per_spray_ml := 2\<rparr>)))) = entry_of 2 (''t'', 1, ''Test'')"
  using water_log_bounded [of "default_state\<lparr>water_per_spray_ml := 2\<rparr>" "[]"
      fifty_five_sprays "''t''" 1 "''Test''"]
  by (simp add: default_state_def length_fifty_five_sprays drop_map)

subsection \<open>Test spray during an active spray\<close>

text \<open>
  C6. While \<open>now \<le> pump_off_time\<close>, an auto-trigger leaves the state as it was. A test
  spray at the same moment is not held back: with enough water it succeeds, deducts
  \<open>water_per_spray_ml\<close>, appends its log entry, switches the pump on and overwrites
  \<open>pump_off_time\<close> with \<open>now\<close> plus the clamped test duration.
\<close>

theorem active_spray_gates_auto_not_test:
  "now \<le> pump_off_time s \<Longrightarrow>
   activate_pump_on_detect current_time now s = s \<and>
   (water_per_spray_ml s \<le> current_water_level_ml s \<longrightarrow>
      fst (handle_pump_test (Map.empty(''duration'' \<mapsto> PyNum d)) current_time now s) = Success \<and>
      current_water_level_ml
        (snd (handle_pump_test (Map.empty(''duration'' \<mapsto> PyNum d)) current_time now s)) =
        current_water_level_ml s - water_per_spray_ml s \<and>
      water_log (snd (handle_pump_test (Map.empty(''duration'' \<mapsto> PyNum d)) current_time now s)) =
        drop (length (water_log s) + 1 - 50)
          (water_log s @ [\<lparr>e_time = current_time, e_duration = max 0.1 (min 10.0 d),
                            e_amount = water_per_spray_ml s, e_type = ''Test''\<rparr>]) \<and>
      pump_off_time (snd (handle_pump_test (Map.empty(''duration'' \<mapsto> PyNum d)) current_time now s)) =
        now + max 0.1 (min 10.0 d) \<and>
      pump_dir (snd (handle_pump_test (Map.empty(''duration'' \<mapsto> PyNum d)) current_time now s)) \<and>
      pump_pwm (snd (handle_pump_test (Map.empty(''duration'' \<mapsto> PyNum d)) current_time now s)) =
        SPEED_PUMP_DUTY_CYCLE)"
  by (simp add: activate_pump_on_detect_def handle_pump_test_def get_default_def
      log_water_usage_def Let_def)

theorem active_spray_gates_auto_not_test_witness:
  "activate_pump_on_detect ''t'' 5 (default_state\<lparr>pump_off_time := 5.1\<rparr>) =
     default_state\<lparr>pump_off_time := 5.1\<rparr> \<and>
   pump_off_time (snd (handle_pump_test (Map.empty(''duration'' \<mapsto> PyNum 2)) ''t'' 5
     (default_state\<lparr>pump_off_time := 5.1\<rparr>))) = 7 \<and>
   current_water_level_ml (snd (handle_pump_test (Map.empty(''duration'' \<mapsto> PyNum 2)) ''t'' 5
     (default_state\<lparr>pump_off_time := 5.1\<rparr>))) = 190"
  using active_spray_gates_auto_not_test
      [of 5 "default_state\<lparr>pump_off_time := 5.1\<rparr>" "''t''" 2]
  by (simp add: default_state_def)

subsection \<open>Shrinking the tank capacity\<close>

text \<open>
  C9, as stated: a capacity of 50 sent to \<open>set_water_config\<close> at level 200 leaves the level
  at 50. On the state of a default start the level afterwards is not 50.
\<close>

theorem capacity_50_level_200_counterexample:
  "current_water_level_ml
     (snd (set_water_config (Map.empty(''water_tank_capacity_ml'' \<mapsto> PyNum 50)) default_state)) \<noteq> 50 \<and>
   current_water_level_ml default_state = 200"
  by (simp add: set_water_config_def get_def default_state_def Let_def)

text \<open>
  C9, amended. The requested capacity is first raised to the minimum of 100; the level
  afterwards is the smaller of the old level and that clamped capacity. A capacity of 50 sent
  at level 200 gives capacity 100 and level 100.
\<close>

theorem capacity_shrink_clamps_to_100:
  "set_water_config (Map.empty(''water_tank_capacity_ml'' \<mapsto> PyNum c)) s =
     (Success, s\<lparr>current_water_level_ml := min (current_water_level_ml s) (max 100 c),
                 water_tank_capacity_ml := max 100 c\<rparr>) \<and>
   current_water_level_ml
     (snd (set_water_config (Map.empty(''water_tank_capacity_ml'' \<mapsto> PyNum 50))
        (s\<lparr>current_water_level_ml := 200\<rparr>))) = 100 \<and>
   water_tank_capacity_ml
     (snd (set_water_config (Map.empty(''water_tank_capacity_ml'' \<mapsto> PyNum 50))
        (s\<lparr>current_water_level_ml := 200\<rparr>))) = 100"
  by (auto simp add: set_water_config_def get_def Let_def min_def max_def)

subsection \<open>Spray volume and spray duration\<close>

lemma last_keep_50:
  "last (drop (length l + 1 - 50) (l @ [e])) = e"
proof -
  have "length l + 1 - 50 < length (l @ [e])" by simp
  then show ?thesis by (simp only: last_drop last_snoc)
qed

lemma map_amount_keep_50:
  "map e_amount (drop k (l @ [\<lparr>e_time = t, e_duration = d, e_amount = w, e_type = ty\<rparr>])) =
   drop k (map e_amount l @ [w])"
  unfolding drop_map [symmetric] by simp

lemma handle_pump_test_success:
  "water_per_spray_ml s \<le> current_water_level_ml s \<Longrightarrow>
   handle_pump_test (Map.empty(''duration'' \<mapsto> PyNum d)) t now s =
     (Success,
      s\<lparr>current_water_level_ml := current_water_level_ml s - water_per_spray_ml s,
        water_log := drop (length (water_log s) + 1 - 50)
          (water_log s @ [\<lparr>e_time = t, e_duration = max 0.1 (min 10.0 d),
                            e_amount = water_per_spray_ml s, e_type = ''Test''\<rparr>]),
        pump_dir := True, pump_pwm := SPEED_PUMP_DUTY_CYCLE,
        pump_off_time := now + max 0.1 (min 10.0 d)\<rparr>)"
  by (simp add: handle_pump_test_def get_default_def log_water_usage_def Let_def)

lemma handle_pump_test_tank_empty:
  "current_water_level_ml s < water_per_spray_ml s \<Longrightarrow>
   handle_pump_test (Map.empty(''duration'' \<mapsto> PyNum d)) t now s = (TankEmpty, s)"
  by (simp add: handle_pump_test_def get_default_def log_water_usage_def Let_def)

lemma activate_pump_on_detect_fires:
  "last_detection_time s + detection_cooldown_s s \<le> now \<Longrightarrow> pump_off_time s < now \<Longrightarrow>
   0 < current_water_level_ml s \<Longrightarrow> water_per_spray_ml s \<le> current_water_level_ml s \<Longrightarrow>
   activate_pump_on_detect t now s =
     pause_motor_for now (motor_pause_on_detection_s s)
      (s\<lparr>current_water_level_ml := current_water_level_ml s - water_per_spray_ml s,
         water_log := drop (length (water_log s) + 1 - 50)
           (water_log s @ [\<lparr>e_time = t, e_duration = pump_detection_duration s,
                             e_amount = water_per_spray_ml s, e_type = ''Auto''\<rparr>]),
         pump_dir := True, pump_pwm := SPEED_PUMP_DUTY_CYCLE,
         pump_off_time := now + pump_detection_duration s,
         last_detection_time := now\<rparr>)"
  by (simp add: activate_pump_on_detect_def log_water_usage_def Let_def)

lemma activate_pump_on_detect_idle:
  "now < last_detection_time s + detection_cooldown_s s \<or> now \<le> pump_off_time s \<or>
   current_water_level_ml s \<le> 0 \<or> current_water_level_ml s < water_per_spray_ml s \<Longrightarrow>
   activate_pump_on_detect t now s = s"
  by (auto simp add: activate_pump_on_detect_def log_water_usage_def Let_def)

lemma pause_motor_for_level [simp]:
  "current_water_level_ml (pause_motor_for now d s) = current_water_level_ml s"
  by (simp add: pause_motor_for_def Let_def)

lemma pause_motor_for_log [simp]:
  "water_log (pause_motor_for now d s) = water_log s"
  by (simp add: pause_motor_for_def Let_def)

text \<open>
  C10. A test spray that succeeds and an auto spray that fires both lower the level by
  exactly \<open>water_per_spray_ml\<close> and log an entry with that amount; the entry's duration is the
  clamped test duration, respectively \<open>pump_detection_duration\<close>. Two test sprays that differ
  only in the requested duration give the same response and states that differ at most in
  \<open>pump_off_time\<close> and the log, and the logged amounts are the same; two auto-triggers that
  differ only in \<open>pump_detection_duration\<close> give the same level and the same logged amounts.
\<close>

theorem spray_volume_independent_of_duration:
  "(water_per_spray_ml s \<le> current_water_level_ml s \<longrightarrow>
      fst (handle_pump_test (Map.empty(''duration'' \<mapsto> PyNum d)) current_time now s) = Success \<and>
      current_water_level_ml
        (snd (handle_pump_test (Map.empty(''duration'' \<mapsto> PyNum d)) current_time now s)) =
        current_water_level_ml s - water_per_spray_ml s \<and>
      last (water_log
        (snd (handle_pump_test (Map.empty(''duration'' \<mapsto> PyNum d)) current_time now s))) =
        \<lparr>e_time = current_time, e_duration = max 0.1 (min 10.0 d),
          e_amount = water_per_spray_ml s, e_type = ''Test''\<rparr>) \<and>
   (last_detection_time s + detection_cooldown_s s \<le> now \<longrightarrow> pump_off_time s < now \<longrightarrow>
    0 < current_water_level_ml s \<longrightarrow> water_per_spray_ml s \<le> current_water_level_ml s \<longrightarrow>
      current_water_level_ml (activate_pump_on_detect current_time now s) =
        current_water_level_ml s - water_per_spray_ml s \<and>
      last (water_log (activate_pump_on_detect current_time now s)) =
        \<lparr>e_time = current_time, e_duration = pump_detection_duration s,
          e_amount = water_per_spray_ml s, e_type = ''Auto''\<rparr>) \<and>
   fst (handle_pump_test (Map.empty(''duration'' \<mapsto> PyNum d1)) current_time now s) =
     fst (handle_pump_test (Map.empty(''duration'' \<mapsto> PyNum d2)) current_time now s) \<and>
   (snd (handle_pump_test (Map.empty(''duration'' \<mapsto> PyNum d1)) current_time now s))
       \<lparr>pump_off_time := x, water_log := l\<rparr> =
     (snd (handle_pump_test (Map.empty(''duration'' \<mapsto> PyNum d2)) current_time now s))
       \<lparr>pump_off_time := x, water_log := l\<rparr> \<and>
   map e_amount (water_log
       (snd (handle_pump_test (Map.empty(''duration'' \<mapsto> PyNum d1)) current_time now s))) =
     map e_amount (water_log
       (snd (handle_pump_test (Map.empty(''duration'' \<mapsto> PyNum d2)) current_time now s))) \<and>
   current_water_level_ml
       (activate_pump_on_detect current_time now (s\<lparr>pump_detection_duration := d1\<rparr>)) =
     current_water_level_ml
       (activate_pump_on_detect current_time now (s\<lparr>pump_detection_duration := d2\<rparr>)) \<and>
   map e_amount (water_log
       (activate_pump_on_detect current_time now (s\<lparr>pump_detection_duration := d1\<rparr>))) =
     map e_amount (water_log
       (activate_pump_on_detect current_time now (s\<lparr>pump_detection_duration := d2\<rparr>)))"
proof -
  let ?T = "\<lambda>d. handle_pump_test (Map.empty(''duration'' \<mapsto> PyNum d)) current_time now s"
  let ?A = "\<lambda>d. activate_pump_on_detect current_time now (s\<lparr>pump_detection_duration := d\<rparr>)"
  have test: "water_per_spray_ml s \<le> current_water_level_ml s \<Longrightarrow>
      fst (?T d) = Success \<and>
      current_water_level_ml (snd (?T d)) = current_water_level_ml s - water_per_spray_ml s \<and>
      last (water_log (snd (?T d))) =
        \<lparr>e_time = current_time, e_duration = max 0.1 (min 10.0 d),
          e_amount = water_per_spray_ml s, e_type = ''Test''\<rparr>"
    by (simp add: handle_pump_test_success last_keep_50 del: drop_append)
  have auto_spray: "last_detection_time s + detection_cooldown_s s \<le> now \<Longrightarrow>
      pump_off_time s < now \<Longrightarrow> 0 < current_water_level_ml s \<Longrightarrow>
      water_per_spray_ml s \<le> current_water_level_ml s \<Longrightarrow>
      current_water_level_ml (activate_pump_on_detect current_time now s) =
        current_water_level_ml s - water_per_spray_ml s \<and>
      last (water_log (activate_pump_on_detect current_time now s)) =
        \<lparr>e_time = current_time, e_duration = pump_detection_duration s,
          e_amount = water_per_spray_ml s, e_type = ''Auto''\<rparr>"
    by (simp add: activate_pump_on_detect_fires last_keep_50 del: drop_append)
  have test_indep: "fst (?T d1) = fst (?T d2) \<and>
      (snd (?T d1))\<lparr>pump_off_time := x, water_log := l\<rparr> =
        (snd (?T d2))\<lparr>pump_off_time := x, water_log := l\<rparr> \<and>
      map e_amount (water_log (snd (?T d1))) = map e_amount (water_log (snd (?T d2)))"
  proof (cases "water_per_spray_ml s \<le> current_water_level_ml s")
    case True
    then show ?thesis
      by (simp add: handle_pump_test_success map_amount_keep_50 del: drop_append)
  next
    case False
    then show ?thesis by (simp add: handle_pump_test_tank_empty)
  qed
  have auto_indep: "current_water_level_ml (?A d1) = current_water_level_ml (?A d2) \<and>
      map e_amount (water_log (?A d1)) = map e_amount (water_log (?A d2))"
  proof (cases "last_detection_time s + detection_cooldown_s s \<le> now \<and> pump_off_time s < now \<and>
      0 < current_water_level_ml s \<and> water_per_spray_ml s \<le> current_water_level_ml s")
    case True
    then show ?thesis
      by (simp add: activate_pump_on_detect_fires map_amount_keep_50 del: drop_append)
  next
    case False
    then have "activate_pump_on_detect current_time now (s\<lparr>pump_detection_duration := d'\<rparr>) =
        s\<lparr>pump_detection_duration := d'\<rparr>" for d'
      by (intro activate_pump_on_detect_idle) auto
    then show ?thesis by simp
  qed
  from test auto_spray test_indep auto_indep show ?thesis by blast
qed

theorem spray_volume_independent_of_duration_witness:
  "current_water_level_ml
     (snd (handle_pump_test (Map.empty(''duration'' \<mapsto> PyNum 10)) ''t'' 5 default_state)) = 190 \<and>
   current_water_level_ml (activate_pump_on_detect ''t'' 5 default_state) = 190 \<and>
   e_amount (last (water_log
     (snd (handle_pump_test (Map.empty(''duration'' \<mapsto> PyNum 10)) ''t'' 5 default_state)))) = 10 \<and>
   e_amount (last (water_log (activate_pump_on_detect ''t'' 5 default_state))) = 10"
  using spray_volume_independent_of_duration [of default_state 10 "''t''" 5 10 "0.2"]
  by (simp add: default_state_def)

subsection \<open>Clamp ranges of the configuration fields\<close>











subsection \<open>Clamping and rejection in the request handlers\<close>











end
